theory Spec2Isabelle
  imports Complex_Main "HOL-Library.Monad_Syntax"
begin

section \<open>Strings, lines and the regular expressions of p1.py\<close>

text \<open>
  A line is a \<^typ>\<open>string\<close>: a list of characters with code points below 256. On such
  characters Python's \<open>\d\<close> is exactly \<open>0..9\<close> and \<open>str.isspace\<close> is the set listed in
  \<open>is_space\<close>.
\<close>

definition is_digit :: "char \<Rightarrow> bool" where
  "is_digit c \<longleftrightarrow> c \<in> set ''0123456789''"

definition is_space :: "char \<Rightarrow> bool" where
  "is_space c \<longleftrightarrow> (of_char c :: nat) \<in> {9, 10, 11, 12, 13, 28, 29, 30, 31, 32, 133, 160}"

text \<open>\<open>str.strip()\<close>: whitespace is removed at both ends.\<close>

definition py_strip :: "string \<Rightarrow> string" where
  "py_strip s = rev (dropWhile is_space (rev (dropWhile is_space s)))"

text \<open>
  \<open>$\<close> (without MULTILINE) matches at the end of the string and also just before a newline
  that is the last character. None of the patterns below can consume a newline, so
  \<open>re.match\<close> of \<open>^X$\<close> on \<open>s\<close> is a full match of \<open>X\<close> on \<open>dollar s\<close>.
\<close>

definition dollar :: "string \<Rightarrow> string" where
  "dollar s = (if s \<noteq> [] \<and> last s = CHR 0x0A then butlast s else s)"

text \<open>A literal piece of a pattern: the rest of the subject after it.\<close>

fun lit :: "string \<Rightarrow> string \<Rightarrow> string option" where
  "lit [] s = Some s"
| "lit (p # ps) [] = None"
| "lit (p # ps) (c # cs) = (if p = c then lit ps cs else None)"

text \<open>
  \<open>\d+\<close>, greedy. In every pattern below it is followed by a piece that cannot start with a
  digit, so taking the longest run of digits is the only way to match.
\<close>

definition digits1 :: "string \<Rightarrow> (string \<times> string) option" where
  "digits1 s = (if takeWhile is_digit s = [] then None
                else Some (takeWhile is_digit s, dropWhile is_digit s))"

text \<open>A character class matching one character, such as \<open>[WS]\<close>.\<close>

definition one_of :: "string \<Rightarrow> string \<Rightarrow> (string \<times> string) option" where
  "one_of cls s = (case s of [] \<Rightarrow> None | c # cs \<Rightarrow> if c \<in> set cls then Some ([c], cs) else None)"

text \<open>\<open>\d+\.\d+\<close>: the captured text and the rest.\<close>

definition decimal :: "string \<Rightarrow> (string \<times> string) option" where
  "decimal s = do {
     (ip, r1) \<leftarrow> digits1 s;
     r2 \<leftarrow> lit ''.'' r1;
     (fp, r3) \<leftarrow> digits1 r2;
     Some (ip @ ''.'' @ fp, r3)
   }"

text \<open>The end of a pattern: nothing may be left.\<close>

definition at_end :: "string \<Rightarrow> 'a \<Rightarrow> 'a option" where
  "at_end r x = (if r = [] then Some x else None)"

text \<open>\<open>regex_p1_header = ^/ISK5.*$\<close>; \<open>.\<close> matches anything but a newline.\<close>

definition regex_p1_header :: "string \<Rightarrow> bool" where
  "regex_p1_header line =
     (case lit ''/ISK5'' line of None \<Rightarrow> False | Some r \<Rightarrow> CHR 0x0A \<notin> set (dollar r))"

text \<open>\<open>regex_p1_crc = ^\!(?P<crc>[A-F0-9]{4})$\<close>; the result is the group \<open>crc\<close>.\<close>

definition regex_p1_crc :: "string \<Rightarrow> string option" where
  "regex_p1_crc line = do {
     r0 \<leftarrow> lit ''!'' (dollar line);
     (h1, r1) \<leftarrow> one_of ''ABCDEF0123456789'' r0;
     (h2, r2) \<leftarrow> one_of ''ABCDEF0123456789'' r1;
     (h3, r3) \<leftarrow> one_of ''ABCDEF0123456789'' r2;
     (h4, r4) \<leftarrow> one_of ''ABCDEF0123456789'' r3;
     at_end r4 (h1 @ h2 @ h3 @ h4)
   }"

text \<open>
  \<open>regex_p1_timestamp = ^0-0:1\.0\.0\((?P<timestamp>\d+)(?P<dst>[WS])\)$\<close>;
  the result is the pair of groups (\<open>timestamp\<close>, \<open>dst\<close>).
\<close>

definition regex_p1_timestamp :: "string \<Rightarrow> (string \<times> string) option" where
  "regex_p1_timestamp line = do {
     r0 \<leftarrow> lit ''0-0:1.0.0('' (dollar line);
     (ts, r1) \<leftarrow> digits1 r0;
     (dst, r2) \<leftarrow> one_of ''WS'' r1;
     r3 \<leftarrow> lit '')'' r2;
     at_end r3 (ts, dst)
   }"

text \<open>\<open>regex_current_kwatt = ^1-0:1\.7\.0\((?P<kwatt>\d+\.\d+)\*kW\)$\<close>\<close>

definition regex_current_kwatt :: "string \<Rightarrow> string option" where
  "regex_current_kwatt line = do {
     r0 \<leftarrow> lit ''1-0:1.7.0('' (dollar line);
     (kwatt, r1) \<leftarrow> decimal r0;
     r2 \<leftarrow> lit ''*kW)'' r1;
     at_end r2 kwatt
   }"

text \<open>\<open>regex_tariff1_total = ^1-0:1\.8\.1\((?P<kwh>\d+\.\d+)\*kWh\)$\<close>\<close>

definition regex_tariff1_total :: "string \<Rightarrow> string option" where
  "regex_tariff1_total line = do {
     r0 \<leftarrow> lit ''1-0:1.8.1('' (dollar line);
     (kwh, r1) \<leftarrow> decimal r0;
     r2 \<leftarrow> lit ''*kWh)'' r1;
     at_end r2 kwh
   }"

text \<open>\<open>regex_tariff2_total = ^1-0:1\.8\.2\((?P<kwh>\d+\.\d+)\*kWh\)$\<close>\<close>

definition regex_tariff2_total :: "string \<Rightarrow> string option" where
  "regex_tariff2_total line = do {
     r0 \<leftarrow> lit ''1-0:1.8.2('' (dollar line);
     (kwh, r1) \<leftarrow> decimal r0;
     r2 \<leftarrow> lit ''*kWh)'' r1;
     at_end r2 kwh
   }"

text \<open>\<open>regex_l1_voltage = ^1-0:32\.7\.0\((?P<voltage>\d+\.\d+)\*V\)$\<close>\<close>

definition regex_l1_voltage :: "string \<Rightarrow> string option" where
  "regex_l1_voltage line = do {
     r0 \<leftarrow> lit ''1-0:32.7.0('' (dollar line);
     (voltage, r1) \<leftarrow> decimal r0;
     r2 \<leftarrow> lit ''*V)'' r1;
     at_end r2 voltage
   }"

text \<open>
  \<open>regex_gas_total = ^0-1:24\.2\.1\((?P<timestamp>\d+)(?P<dst>[WS])\)\((?P<gas>\d+\.\d+)\*m3\)$\<close>;
  the result is the triple of groups (\<open>timestamp\<close>, \<open>dst\<close>, \<open>gas\<close>).
\<close>

definition regex_gas_total :: "string \<Rightarrow> (string \<times> string \<times> string) option" where
  "regex_gas_total line = do {
     r0 \<leftarrow> lit ''0-1:24.2.1('' (dollar line);
     (ts, r1) \<leftarrow> digits1 r0;
     (dst, r2) \<leftarrow> one_of ''WS'' r1;
     r3 \<leftarrow> lit '')('' r2;
     (gas, r4) \<leftarrow> decimal r3;
     r5 \<leftarrow> lit ''*m3)'' r4;
     at_end r5 (ts, dst, gas)
   }"

section \<open>The library functions p1.py calls\<close>

text \<open>The exceptions that the modelled code can raise; none of them is caught in p1.py.\<close>

datatype error = ValueError | OverflowError | AttributeError

subsection \<open>\<open>datetime\<close>\<close>

text \<open>
  A naive \<open>datetime\<close> with zero microseconds is identified by the proleptic Gregorian
  ordinal of its date (\<open>toordinal()\<close>, day 1 is 0001-01-01) and the second of its day;
  \<open>datetime.__add__\<close> computes on exactly this pair.
\<close>

record datetime =
  ordinal :: int
  secs :: int

definition is_leap :: "int \<Rightarrow> bool" where
  "is_leap year \<longleftrightarrow> year mod 4 = 0 \<and> (year mod 100 \<noteq> 0 \<or> year mod 400 = 0)"

definition days_before_year :: "int \<Rightarrow> int" where
  "days_before_year year =
     (let y = year - 1 in y * 365 + y div 4 - y div 100 + y div 400)"

definition days_in_month :: "int \<Rightarrow> int \<Rightarrow> int" where
  "days_in_month year month =
     (if month = 2 \<and> is_leap year then 29
      else [31, 28, 31, 30, 31, 30, 31, 31, 30, 31, 30, 31] ! nat (month - 1))"

definition days_before_month :: "int \<Rightarrow> int \<Rightarrow> int" where
  "days_before_month year month =
     [0, 31, 59, 90, 120, 151, 181, 212, 243, 273, 304, 334] ! nat (month - 1)
       + (if month > 2 \<and> is_leap year then 1 else 0)"

definition ymd2ord :: "int \<Rightarrow> int \<Rightarrow> int \<Rightarrow> int" where
  "ymd2ord year month day = days_before_year year + days_before_month year month + day"

definition MAXORDINAL :: int where
  "MAXORDINAL = 3652059"

text \<open>
  The constructor \<open>datetime(year, month, day, hour, minute, second)\<close> with its range
  checks; the month is checked before the tables are indexed.
\<close>

definition datetime_new :: "int \<Rightarrow> int \<Rightarrow> int \<Rightarrow> int \<Rightarrow> int \<Rightarrow> int \<Rightarrow> error + datetime" where
  "datetime_new year month day hour minute second =
     (if \<not> (1 \<le> year \<and> year \<le> 9999) then Inl ValueError
      else if \<not> (1 \<le> month \<and> month \<le> 12) then Inl ValueError
      else if \<not> (1 \<le> day \<and> day \<le> days_in_month year month) then Inl ValueError
      else if \<not> (0 \<le> hour \<and> hour \<le> 23) then Inl ValueError
      else if \<not> (0 \<le> minute \<and> minute \<le> 59) then Inl ValueError
      else if \<not> (0 \<le> second \<and> second \<le> 59) then Inl ValueError
      else Inr \<lparr>ordinal = ymd2ord year month day,
                secs = hour * 3600 + minute * 60 + second\<rparr>)"

text \<open>The attribute \<open>.second\<close>.\<close>

definition dt_second :: "datetime \<Rightarrow> int" where
  "dt_second dt = (secs dt mod 3600) mod 60"

text \<open>The number of seconds from the start of day 0 to the instant.\<close>

definition instant :: "datetime \<Rightarrow> int" where
  "instant dt = ordinal dt * 86400 + secs dt"

text \<open>
  \<open>dt + datetime.timedelta(seconds=offset)\<close>: the sum is normalised by floor division
  into days and seconds, and a day outside \<open>1..MAXORDINAL\<close> is an \<open>OverflowError\<close>.
\<close>

definition datetime_add_seconds :: "datetime \<Rightarrow> int \<Rightarrow> error + datetime" where
  "datetime_add_seconds dt offset =
     (let total = ordinal dt * 86400 + secs dt + offset;
          days = total div 86400;
          seconds = total mod 86400
      in if 0 < days \<and> days \<le> MAXORDINAL then Inr \<lparr>ordinal = days, secs = seconds\<rparr>
         else Inl OverflowError)"

subsection \<open>\<open>datetime.strptime\<close> with \<open>P1_TIME_FMT = "%y%m%d%H%M%S"\<close>\<close>

text \<open>
  \<open>strptime\<close> compiles the format into the regular expression
  \<^verbatim>\<open>(?P<y>\d\d)(?P<m>1[0-2]|0[1-9]|[1-9])(?P<d>3[0-1]|[1-2]\d|0[1-9]|[1-9]| [1-9])\<close>
  \<^verbatim>\<open>(?P<H>2[0-3]|[0-1]\d|\d)(?P<M>[0-5]\d|\d)(?P<S>6[0-1]|[0-5]\d|\d)\<close>
  and matches it at the start of the text. The alternatives are tried in order with
  backtracking: every directive below lists its matches in that order, and the match of
  the whole expression is the first one in the lexicographic enumeration.
\<close>

definition cc2 :: "string \<Rightarrow> string \<Rightarrow> string \<Rightarrow> (string \<times> string) list" where
  "cc2 a b s = (case s of
       c1 # c2 # r \<Rightarrow> if c1 \<in> set a \<and> c2 \<in> set b then [([c1, c2], r)] else []
     | _ \<Rightarrow> [])"

definition cc1 :: "string \<Rightarrow> string \<Rightarrow> (string \<times> string) list" where
  "cc1 a s = (case s of c # r \<Rightarrow> if c \<in> set a then [([c], r)] else [] | [] \<Rightarrow> [])"

definition dir_y :: "string \<Rightarrow> (string \<times> string) list" where
  "dir_y s = cc2 ''0123456789'' ''0123456789'' s"

definition dir_m :: "string \<Rightarrow> (string \<times> string) list" where
  "dir_m s = cc2 ''1'' ''012'' s @ cc2 ''0'' ''123456789'' s @ cc1 ''123456789'' s"

definition dir_d :: "string \<Rightarrow> (string \<times> string) list" where
  "dir_d s = cc2 ''3'' ''01'' s @ cc2 ''12'' ''0123456789'' s @ cc2 ''0'' ''123456789'' s
             @ cc1 ''123456789'' s @ cc2 '' '' ''123456789'' s"

definition dir_H :: "string \<Rightarrow> (string \<times> string) list" where
  "dir_H s = cc2 ''2'' ''0123'' s @ cc2 ''01'' ''0123456789'' s @ cc1 ''0123456789'' s"

definition dir_M :: "string \<Rightarrow> (string \<times> string) list" where
  "dir_M s = cc2 ''012345'' ''0123456789'' s @ cc1 ''0123456789'' s"

definition dir_S :: "string \<Rightarrow> (string \<times> string) list" where
  "dir_S s = cc2 ''6'' ''01'' s @ cc2 ''012345'' ''0123456789'' s @ cc1 ''0123456789'' s"

definition format_regex_match ::
  "string \<Rightarrow> ((string \<times> string \<times> string \<times> string \<times> string \<times> string) \<times> string) list" where
  "format_regex_match s = do {
     (y, r1) \<leftarrow> dir_y s;
     (m, r2) \<leftarrow> dir_m r1;
     (d, r3) \<leftarrow> dir_d r2;
     (H, r4) \<leftarrow> dir_H r3;
     (M, r5) \<leftarrow> dir_M r4;
     (S, r6) \<leftarrow> dir_S r5;
     [((y, m, d, H, M, S), r6)]
   }"

definition digit_val :: "char \<Rightarrow> nat" where
  "digit_val c = of_char c - 48"

definition nat_of_digits :: "string \<Rightarrow> nat" where
  "nat_of_digits s = foldl (\<lambda>a c. 10 * a + digit_val c) 0 s"

text \<open>\<open>int(text)\<close> on a matched directive: digits, after a space in one alternative of \<open>%d\<close>.\<close>

definition py_int :: "string \<Rightarrow> int" where
  "py_int t = int (nat_of_digits (dropWhile is_space t))"

text \<open>
  \<open>datetime.datetime.strptime(timestring, P1_TIME_FMT)\<close>: no match, text left over after
  the match, a day the month does not have and a second of 60 or 61 are all a
  \<open>ValueError\<close>. A two-digit year up to 68 is in 2000..2068, any other in 1969..1999.
\<close>

definition strptime :: "string \<Rightarrow> error + datetime" where
  "strptime data_string =
     (case format_regex_match data_string of
        [] \<Rightarrow> Inl ValueError
      | ((y, m, d, H, M, S), rest) # _ \<Rightarrow>
          if rest \<noteq> [] then Inl ValueError
          else let year = (if py_int y \<le> 68 then py_int y + 2000 else py_int y + 1900)
               in datetime_new year (py_int m) (py_int d) (py_int H) (py_int M) (py_int S))"

subsection \<open>\<open>float\<close>\<close>

text \<open>
  A Python \<open>float\<close> is an IEEE 754 binary64 number. The texts the patterns capture are
  unsigned, so the floats of this program are never negative and never NaN: a
  \<open>float64\<close> is a finite value, held as the real number it is, or infinity.
\<close>

datatype float64 = Finite real | Infinity

text \<open>
  \<open>scale x 0\<close> is the pair \<open>(m, e)\<close> with \<open>x = m * 2 ^ e\<close> in which \<open>2 ^ e\<close> is the
  spacing of binary64 at \<open>x\<close>: \<open>m\<close> lies between \<open>2 ^ 52\<close> and \<open>2 ^ 53\<close>, or \<open>e\<close> is the smallest
  exponent, \<open>- 1074\<close>, and \<open>m\<close> is below \<open>2 ^ 52\<close> (a subnormal number).
\<close>

function scale :: "real \<Rightarrow> int \<Rightarrow> real \<times> int" where
  "scale x e =
     (if 9007199254740992 \<le> x then scale (x / 2) (e + 1)
      else if x < 4503599627370496 \<and> - 1074 < e then scale (2 * x) (e - 1)
      else (x, e))"
  by pat_completeness auto
termination
proof (relation "measures [\<lambda>(x, e). if 9007199254740992 \<le> x then nat \<lfloor>x\<rfloor> else 0,
                           \<lambda>(x, e). nat (e + 1074)]")
  show "wf (measures [\<lambda>(x, e). if 9007199254740992 \<le> x then nat \<lfloor>x\<rfloor> else 0,
                           \<lambda>(x, e). nat (e + 1074)])"
    by simp
next
  fix x :: real and e :: int
  assume big: "9007199254740992 \<le> x"
  have "\<lfloor>x / 2\<rfloor> \<le> \<lfloor>x - 1\<rfloor>" using big by (intro floor_mono) simp
  then have "\<lfloor>x / 2\<rfloor> < \<lfloor>x\<rfloor>" by simp
  moreover have "0 < \<lfloor>x\<rfloor>" using big by simp
  ultimately show "((x / 2, e + 1), (x, e)) \<in> measures
      [\<lambda>(x, e). if 9007199254740992 \<le> x then nat \<lfloor>x\<rfloor> else 0, \<lambda>(x, e). nat (e + 1074)]"
    using big by simp
next
  fix x :: real and e :: int
  assume "\<not> 9007199254740992 \<le> x" and "x < 4503599627370496 \<and> - 1074 < e"
  then show "((2 * x, e - 1), (x, e)) \<in> measures
      [\<lambda>(x, e). if 9007199254740992 \<le> x then nat \<lfloor>x\<rfloor> else 0, \<lambda>(x, e). nat (e + 1074)]"
    by simp
qed

declare scale.simps [simp del]

text \<open>The nearest integer; of two equally near ones the even one.\<close>

definition round_half_even :: "real \<Rightarrow> int" where
  "round_half_even m =
     (let f = \<lfloor>m\<rfloor>; d = m - of_int f in
      if d < 1 / 2 then f else if 1 / 2 < d then f + 1 else if even f then f else f + 1)"

definition pow2 :: "int \<Rightarrow> real" where
  "pow2 e = (if 0 \<le> e then 2 ^ nat e else 1 / 2 ^ nat (- e))"

text \<open>
  The binary64 number nearest to a real \<open>x \<ge> 0\<close> (round to nearest, ties to even): the
  result of every correctly rounded operation whose exact result is \<open>x\<close>. A rounded value
  of \<open>2 ^ 1024\<close> or more is infinity.
\<close>

definition rn :: "real \<Rightarrow> float64" where
  "rn x = (case scale x 0 of (m, e) \<Rightarrow>
             let r = of_int (round_half_even m) * pow2 e
             in if 2 ^ 1024 \<le> r then Infinity else Finite r)"

text \<open>\<open>x * k\<close> for a float \<open>x\<close> and a positive integer \<open>k\<close> that is a float exactly.\<close>

fun fmul :: "float64 \<Rightarrow> real \<Rightarrow> float64" where
  "fmul (Finite x) k = rn (x * k)"
| "fmul Infinity k = Infinity"

text \<open>
  \<open>float(text)\<close> on a text of the shape \<open>\d+\.\d+\<close>, the only shape the patterns capture:
  the binary64 number nearest to the decimal number the text denotes (CPython converts
  correctly rounded), infinity for a text that is too large. Any other text is answered
  with \<open>ValueError\<close> here.
\<close>

definition py_float :: "string \<Rightarrow> error + float64" where
  "py_float s =
     (let ip = takeWhile is_digit s in
      case dropWhile is_digit s of
        [] \<Rightarrow> Inl ValueError
      | c # fp \<Rightarrow>
          if c = CHR ''.'' \<and> ip \<noteq> [] \<and> fp \<noteq> [] \<and> list_all is_digit fp
          then Inr (rn (real (nat_of_digits ip) + real (nat_of_digits fp) / 10 ^ length fp))
          else Inl ValueError)"

subsection \<open>\<open>time.timezone\<close> and \<open>time.altzone\<close>\<close>

text \<open>
  The two offsets (seconds west of UTC, without and with daylight saving) are read from
  the process's time zone; the model takes them as an environment.
\<close>

record tzenv =
  timezone :: int
  altzone :: int

section \<open>p1.py\<close>

definition P1_MSG_LIMIT :: nat where
  "P1_MSG_LIMIT = 100"

definition influxdb_org :: string where
  "influxdb_org = []"

definition influxdb_highres_bucket :: string where
  "influxdb_highres_bucket = ''p1_hr''"

definition influxdb_lowres_bucket :: string where
  "influxdb_lowres_bucket = ''p1_lr''"

definition p1_localtime_to_utc :: "tzenv \<Rightarrow> string \<Rightarrow> string \<Rightarrow> error + datetime" where
  "p1_localtime_to_utc env timestring dstchar =
     (case strptime timestring of
        Inl e \<Rightarrow> Inl e
      | Inr local \<Rightarrow>
          let offset = (if dstchar = ''W'' then timezone env else altzone env)
          in datetime_add_seconds local offset)"

record P1Data =
  timestamp :: "datetime option"
  watt :: "float64 option"
  tariff1 :: "float64 option"
  tariff2 :: "float64 option"
  voltage :: "float64 option"
  gas :: "float64 option"
  gas_timestamp :: "datetime option"

text \<open>\<open>P1Data()\<close>: every field is \<open>None\<close>.\<close>

definition P1Data_init :: P1Data where
  "P1Data_init = \<lparr>timestamp = None, watt = None, tariff1 = None, tariff2 = None,
                  voltage = None, gas = None, gas_timestamp = None\<rparr>"

text \<open>
  The body of the loop of \<open>p1_data_from_lines\<close> is six independent \<open>if match:\<close> blocks
  run one after the other on the same line; an exception in one of them leaves the
  function.
\<close>

definition on_timestamp :: "tzenv \<Rightarrow> string \<Rightarrow> P1Data \<Rightarrow> error + P1Data" where
  "on_timestamp env line p1 =
     (case regex_p1_timestamp line of
        None \<Rightarrow> Inr p1
      | Some (timestring, dst) \<Rightarrow>
          (case p1_localtime_to_utc env timestring dst of
             Inl e \<Rightarrow> Inl e
           | Inr t \<Rightarrow> Inr (p1\<lparr>timestamp := Some t\<rparr>)))"

definition on_kwatt :: "string \<Rightarrow> P1Data \<Rightarrow> error + P1Data" where
  "on_kwatt line p1 =
     (case regex_current_kwatt line of
        None \<Rightarrow> Inr p1
      | Some kwatt \<Rightarrow>
          (case py_float kwatt of
             Inl e \<Rightarrow> Inl e
           | Inr x \<Rightarrow> Inr (p1\<lparr>watt := Some (fmul x 1000)\<rparr>)))"

definition on_tariff1 :: "string \<Rightarrow> P1Data \<Rightarrow> error + P1Data" where
  "on_tariff1 line p1 =
     (case regex_tariff1_total line of
        None \<Rightarrow> Inr p1
      | Some kwh \<Rightarrow>
          (case py_float kwh of
             Inl e \<Rightarrow> Inl e
           | Inr x \<Rightarrow> Inr (p1\<lparr>tariff1 := Some x\<rparr>)))"

definition on_tariff2 :: "string \<Rightarrow> P1Data \<Rightarrow> error + P1Data" where
  "on_tariff2 line p1 =
     (case regex_tariff2_total line of
        None \<Rightarrow> Inr p1
      | Some kwh \<Rightarrow>
          (case py_float kwh of
             Inl e \<Rightarrow> Inl e
           | Inr x \<Rightarrow> Inr (p1\<lparr>tariff2 := Some x\<rparr>)))"

definition on_voltage :: "string \<Rightarrow> P1Data \<Rightarrow> error + P1Data" where
  "on_voltage line p1 =
     (case regex_l1_voltage line of
        None \<Rightarrow> Inr p1
      | Some v \<Rightarrow>
          (case py_float v of
             Inl e \<Rightarrow> Inl e
           | Inr x \<Rightarrow> Inr (p1\<lparr>voltage := Some x\<rparr>)))"

definition on_gas :: "tzenv \<Rightarrow> string \<Rightarrow> P1Data \<Rightarrow> error + P1Data" where
  "on_gas env line p1 =
     (case regex_gas_total line of
        None \<Rightarrow> Inr p1
      | Some (timestring, dst, g) \<Rightarrow>
          (case p1_localtime_to_utc env timestring dst of
             Inl e \<Rightarrow> Inl e
           | Inr t \<Rightarrow>
               (case py_float g of
                  Inl e \<Rightarrow> Inl e
                | Inr x \<Rightarrow> Inr (p1\<lparr>gas_timestamp := Some t, gas := Some x\<rparr>))))"

definition then_do :: "error + 'a \<Rightarrow> ('a \<Rightarrow> error + 'b) \<Rightarrow> error + 'b" where
  "then_do r f = (case r of Inl e \<Rightarrow> Inl e | Inr x \<Rightarrow> f x)"

definition p1_line :: "tzenv \<Rightarrow> string \<Rightarrow> P1Data \<Rightarrow> error + P1Data" where
  "p1_line env line p1 =
     then_do (then_do (then_do (then_do (then_do (on_timestamp env line p1)
       (on_kwatt line)) (on_tariff1 line)) (on_tariff2 line)) (on_voltage line))
       (on_gas env line)"

fun p1_lines :: "tzenv \<Rightarrow> P1Data \<Rightarrow> string list \<Rightarrow> error + P1Data" where
  "p1_lines env p1 [] = Inr p1"
| "p1_lines env p1 (line # lines) =
     (case p1_line env line p1 of Inl e \<Rightarrow> Inl e | Inr p1' \<Rightarrow> p1_lines env p1' lines)"

definition p1_data_from_lines :: "tzenv \<Rightarrow> string list \<Rightarrow> error + P1Data" where
  "p1_data_from_lines env lines = p1_lines env P1Data_init lines"

subsection \<open>The time-series client\<close>

text \<open>
  \<open>Point(m).tag(k, v).field(f, x).time(t)\<close> is a value with these five parts; a field
  value and a time may be \<open>None\<close>.
\<close>

record point =
  measurement :: string
  tag :: "string \<times> string"
  field :: "string \<times> float64 option"
  time :: "datetime option"

definition Point :: "string \<Rightarrow> string \<times> string \<Rightarrow> string \<times> float64 option \<Rightarrow> datetime option \<Rightarrow> point" where
  "Point m tg fl t = \<lparr>measurement = m, tag = tg, field = fl, time = t\<rparr>"

text \<open>
  The write API \<open>db\<close> and the standard output are the world the program acts on:
  \<open>db.write(bucket, org, points, WritePrecision.S)\<close> appends a call to \<open>writes\<close>,
  \<open>db.flush()\<close> is counted, and \<open>print\<close> appends to \<open>stdout\<close>. Failures of the client
  itself (network, server) are outside the model.
\<close>

record write_call =
  bucket :: string
  org :: string
  points :: "point list"

datatype printed = Written_new_measurement P1Data | OOOP

record world =
  writes :: "write_call list"
  flushes :: nat
  stdout :: "printed list"

definition db_write :: "string \<Rightarrow> string \<Rightarrow> point list \<Rightarrow> world \<Rightarrow> world" where
  "db_write b g ps w = w\<lparr>writes := writes w @ [\<lparr>bucket = b, org = g, points = ps\<rparr>]\<rparr>"

definition db_flush :: "world \<Rightarrow> world" where
  "db_flush w = w\<lparr>flushes := Suc (flushes w)\<rparr>"

definition print :: "printed \<Rightarrow> world \<Rightarrow> world" where
  "print x w = w\<lparr>stdout := stdout w @ [x]\<rparr>"

subsection \<open>\<open>add_p1_to_influxdb\<close>\<close>

definition p1_points :: "P1Data \<Rightarrow> point list" where
  "p1_points p1 =
     [Point ''electricity'' (''reading'', ''power'') (''watt'', watt p1) (timestamp p1),
      Point ''electricity'' (''reading'', ''tariff1'') (''kwh'', tariff1 p1) (timestamp p1),
      Point ''electricity'' (''reading'', ''tariff2'') (''kwh'', tariff2 p1) (timestamp p1),
      Point ''electricity'' (''reading'', ''voltage'') (''volt'', voltage p1) (timestamp p1),
      Point ''gas'' (''reading'', ''usage'') (''m3'', gas p1) (gas_timestamp p1)]"

text \<open>
  The result is the world after the call and the exception that left it, if any:
  \<open>p1.timestamp.second\<close> on \<open>None\<close> is an \<open>AttributeError\<close>, raised after the first write.
\<close>

definition add_p1_to_influxdb :: "world \<Rightarrow> P1Data \<Rightarrow> world \<times> error option" where
  "add_p1_to_influxdb w p1 =
     (let w1 = db_write influxdb_highres_bucket influxdb_org (p1_points p1) w in
      case timestamp p1 of
        None \<Rightarrow> (w1, Some AttributeError)
      | Some t \<Rightarrow>
          let w2 = (if dt_second t = 0
                    then db_write influxdb_lowres_bucket influxdb_org (p1_points p1) w1
                    else w1)
          in (print (Written_new_measurement p1) (db_flush w2), None))"

subsection \<open>The read loop\<close>

text \<open>
  The program blocks in \<open>meter.readline()\<close> at two places: in the outer loop, waiting for
  a header (\<open>AwaitHeader\<close>), and in the inner loop with the lines collected so far in
  \<open>p1_msg\<close> (\<open>Collecting p1_msg\<close>). An exception that nothing catches ends the process
  (\<open>Crashed\<close>). \<open>step\<close> is what the program does with one line that the meter delivers,
  up to the next \<open>readline\<close>; the line is stripped first.
\<close>

datatype pc = AwaitHeader | Collecting "string list" | Crashed error

definition step :: "tzenv \<Rightarrow> pc \<times> world \<Rightarrow> string \<Rightarrow> pc \<times> world" where
  "step env st raw =
     (let line = py_strip raw; w = snd st in
      case fst st of
        Crashed e \<Rightarrow> st
      | AwaitHeader \<Rightarrow> if regex_p1_header line then (Collecting [], w) else (AwaitHeader, w)
      | Collecting p1_msg \<Rightarrow>
          (case regex_p1_crc line of
             Some crc \<Rightarrow>
               (case p1_data_from_lines env p1_msg of
                  Inl e \<Rightarrow> (Crashed e, w)
                | Inr p1 \<Rightarrow>
                    (case add_p1_to_influxdb w p1 of
                       (w', Some e) \<Rightarrow> (Crashed e, w')
                     | (w', None) \<Rightarrow> (AwaitHeader, w')))
           | None \<Rightarrow>
               let p1_msg' = p1_msg @ [line] in
               if length p1_msg' \<le> P1_MSG_LIMIT then (Collecting p1_msg', w)
               else (AwaitHeader, print OOOP w)))"

definition run :: "tzenv \<Rightarrow> pc \<times> world \<Rightarrow> string list \<Rightarrow> pc \<times> world" where
  "run env st raws = foldl (step env) st raws"

definition world0 :: world where
  "world0 = \<lparr>writes = [], flushes = 0, stdout = []\<rparr>"

section \<open>Sample data and auxiliary predicates\<close>

text \<open>Central European Time, the zone of the meter: one hour east of UTC, two in summer.\<close>

definition CET :: tzenv where
  "CET = \<lparr>timezone = - 3600, altzone = - 7200\<rparr>"

text \<open>The telegram of the specification: header and the six body lines.\<close>

definition spec_header :: string where
  "spec_header = ''/ISK5'' @ [CHR 0x5C] @ ''2M550E-1013''"

definition spec_body :: "string list" where
  "spec_body =
     [''0-0:1.0.0(210214195440W)'',
      ''1-0:1.7.0(00.234*kW)'',
      ''1-0:1.8.1(000032.289*kWh)'',
      ''1-0:1.8.2(000016.064*kWh)'',
      ''1-0:32.7.0(235.2*V)'',
      ''0-1:24.2.1(210214195003W)(00026.800*m3)'']"

text \<open>
  A second telegram whose timestamp is one second before that of the first, and the two
  telegrams in a row; the Readings that CET gives for them. A \<open>float\<close> written as a
  decimal literal, as in the specification, is the binary64 number nearest to it.
\<close>

definition stale_body :: "string list" where
  "stale_body = [''0-0:1.0.0(210214195439W)'']"

definition two_telegrams :: "string list" where
  "two_telegrams =
     (spec_header # spec_body @ [''!AEB6'']) @ (spec_header # stale_body @ [''!0000''])"

definition spec_reading :: P1Data where
  "spec_reading =
     \<lparr>timestamp = Some \<lparr>ordinal = 737835, secs = 68080\<rparr>, watt = Some (Finite 234),
      tariff1 = Some (rn 32.289), tariff2 = Some (rn 16.064), voltage = Some (rn 235.2),
      gas = Some (rn 26.8), gas_timestamp = Some \<lparr>ordinal = 737835, secs = 67803\<rparr>\<rparr>"

definition stale_reading :: P1Data where
  "stale_reading = P1Data_init\<lparr>timestamp := Some \<lparr>ordinal = 737835, secs = 68079\<rparr>\<rparr>"

text \<open>The gas volume and its timestamp are present together or absent together.\<close>

definition gas_paired :: "P1Data \<Rightarrow> bool" where
  "gas_paired p1 \<longleftrightarrow> (gas p1 = None \<longleftrightarrow> gas_timestamp p1 = None)"

section \<open>Evaluation and loop lemmas\<close>

lemmas regex_defs = regex_p1_header_def regex_p1_crc_def regex_p1_timestamp_def
  regex_current_kwatt_def regex_tariff1_total_def regex_tariff2_total_def
  regex_l1_voltage_def regex_gas_total_def decimal_def digits1_def one_of_def at_end_def
  dollar_def is_digit_def

lemmas strptime_defs = strptime_def format_regex_match_def dir_y_def dir_m_def dir_d_def
  dir_H_def dir_M_def dir_S_def cc2_def cc1_def py_int_def nat_of_digits_def digit_val_def
  is_space_def datetime_new_def days_in_month_def is_leap_def ymd2ord_def
  days_before_year_def days_before_month_def

lemmas float_defs = py_float_def is_digit_def nat_of_digits_def digit_val_def rn_def
  scale.simps round_half_even_def pow2_def Let_def

lemmas line_defs = p1_line_def then_do_def on_timestamp_def on_kwatt_def on_tariff1_def
  on_tariff2_def on_voltage_def on_gas_def

lemma run_Nil: "run env st [] = st"
  by (simp add: run_def)

lemma run_Cons: "run env st (l # ls) = run env (step env st l) ls"
  by (simp add: run_def)

lemma run_append: "run env st (a @ b) = run env (run env st a) b"
  by (simp add: run_def)

lemma step_await:
  "step env (AwaitHeader, w) raw =
     (if regex_p1_header (py_strip raw) then (Collecting [], w) else (AwaitHeader, w))"
  by (simp add: step_def)

lemma step_collect_body:
  "regex_p1_crc (py_strip raw) = None \<Longrightarrow>
   step env (Collecting msg, w) raw =
     (if Suc (length msg) \<le> P1_MSG_LIMIT then (Collecting (msg @ [py_strip raw]), w)
      else (AwaitHeader, print OOOP w))"
  by (simp add: step_def Let_def)

lemma step_collect_trailer:
  "regex_p1_crc (py_strip raw) = Some crc \<Longrightarrow>
   step env (Collecting msg, w) raw =
     (case p1_data_from_lines env msg of
        Inl e \<Rightarrow> (Crashed e, w)
      | Inr p1 \<Rightarrow>
          (case add_p1_to_influxdb w p1 of
             (w', Some e) \<Rightarrow> (Crashed e, w')
           | (w', None) \<Rightarrow> (AwaitHeader, w')))"
  by (simp add: step_def Let_def)

text \<open>While no trailer arrives and the limit is not passed, lines pile up in \<open>p1_msg\<close>.\<close>

lemma run_collect:
  "\<forall>l\<in>set ls. regex_p1_crc (py_strip l) = None \<Longrightarrow>
   length msg + length ls \<le> P1_MSG_LIMIT \<Longrightarrow>
   run env (Collecting msg, w) ls = (Collecting (msg @ map py_strip ls), w)"
proof (induction ls arbitrary: msg)
  case Nil
  then show ?case by (simp add: run_Nil)
next
  case (Cons l ls)
  from Cons.prems have nocrc: "regex_p1_crc (py_strip l) = None" by simp
  from Cons.prems have len: "Suc (length msg) \<le> P1_MSG_LIMIT" by simp
  have "run env (Collecting msg, w) (l # ls) = run env (Collecting (msg @ [py_strip l]), w) ls"
    using nocrc len by (simp add: run_Cons step_collect_body)
  also have "\<dots> = (Collecting ((msg @ [py_strip l]) @ map py_strip ls), w)"
    using Cons.prems by (intro Cons.IH) simp_all
  finally show ?case by simp
qed

text \<open>A header line starts with a slash, a trailer line with an exclamation mark.\<close>

lemma header_not_crc: "regex_p1_header l \<Longrightarrow> regex_p1_crc l = None"
proof -
  assume h: "regex_p1_header l"
  then obtain r where r: "lit ''/ISK5'' l = Some r"
    by (auto simp: regex_p1_header_def split: option.splits)
  then obtain t where l: "l = CHR ''/'' # CHR ''I'' # t"
    by (cases l; cases "tl l") (auto split: if_splits)
  have "dollar l = CHR ''/'' # dollar (CHR ''I'' # t)"
    unfolding l by (simp add: dollar_def)
  then show ?thesis by (simp add: regex_p1_crc_def)
qed

lemma spec_header_is_header: "regex_p1_header (py_strip spec_header)"
  by (simp add: spec_header_def py_strip_def is_space_def regex_defs)

lemma strptime_195440: "strptime ''210214195440'' = Inr \<lparr>ordinal = 737835, secs = 71680\<rparr>"
  by (simp add: strptime_defs)

lemma strptime_195003: "strptime ''210214195003'' = Inr \<lparr>ordinal = 737835, secs = 71403\<rparr>"
  by (simp add: strptime_defs)

text \<open>The floats of the sample telegram, and the power in watt.\<close>

lemma float_examples:
  "py_float ''00.234'' = Inr (Finite (8430738502437569 / 2 ^ 55))"
  "py_float ''000032.289'' = Inr (Finite (2272136380752593 / 2 ^ 46))"
  "py_float ''000016.064'' = Inr (Finite (2260807012939989 / 2 ^ 47))"
  "py_float ''235.2'' = Inr (Finite (4137682157646643 / 2 ^ 44))"
  "py_float ''00026.800'' = Inr (Finite (7543529375845581 / 2 ^ 48))"
  by (simp_all add: float_defs)

lemma literal_values:
  "rn 0.234 = Finite (8430738502437569 / 2 ^ 55)"
  "rn 32.289 = Finite (2272136380752593 / 2 ^ 46)"
  "rn 16.064 = Finite (2260807012939989 / 2 ^ 47)"
  "rn 235.2 = Finite (4137682157646643 / 2 ^ 44)"
  "rn 26.8 = Finite (7543529375845581 / 2 ^ 48)"
  by (simp_all add: float_defs)

lemma kilowatt_to_watt: "fmul (Finite (8430738502437569 / 2 ^ 55)) 1000 = Finite 234"
  by (simp add: float_defs)

text \<open>
  The product is rounded: 1.001 kW is not 1001 W but the float just below it,
  printed as 1000.9999999999999.
\<close>

lemma kilowatt_to_watt_rounds:
  "py_float ''01.001'' = Inr (Finite (2254051613498933 / 2 ^ 51))"
  "fmul (Finite (2254051613498933 / 2 ^ 51)) 1000 = Finite (8804889115230207 / 2 ^ 43)"
  "Finite (8804889115230207 / 2 ^ 43) \<noteq> Finite 1001"
  by (simp_all add: float_defs)

lemma line1:
  "p1_line env ''0-0:1.0.0(210214195440W)'' p1 =
     (case datetime_add_seconds \<lparr>ordinal = 737835, secs = 71680\<rparr> (timezone env) of
        Inl e \<Rightarrow> Inl e | Inr t \<Rightarrow> Inr (p1\<lparr>timestamp := Some t\<rparr>))"
  by (simp add: line_defs regex_defs p1_localtime_to_utc_def strptime_195440 split: sum.splits)

lemma line2:
  "p1_line env ''1-0:1.7.0(00.234*kW)'' p1 = Inr (p1\<lparr>watt := Some (Finite 234)\<rparr>)"
  by (simp add: line_defs regex_defs float_examples float_defs)

lemma line3:
  "p1_line env ''1-0:1.8.1(000032.289*kWh)'' p1 = Inr (p1\<lparr>tariff1 := Some (Finite (2272136380752593 / 2 ^ 46))\<rparr>)"
  by (simp add: line_defs regex_defs float_examples)

lemma line4:
  "p1_line env ''1-0:1.8.2(000016.064*kWh)'' p1 = Inr (p1\<lparr>tariff2 := Some (Finite (2260807012939989 / 2 ^ 47))\<rparr>)"
  by (simp add: line_defs regex_defs float_examples)

lemma line5:
  "p1_line env ''1-0:32.7.0(235.2*V)'' p1 =
     Inr (p1\<lparr>voltage := Some (Finite (4137682157646643 / 2 ^ 44))\<rparr>)"
  by (simp add: line_defs regex_defs float_examples)

lemma line6:
  "p1_line env ''0-1:24.2.1(210214195003W)(00026.800*m3)'' p1 =
     (case datetime_add_seconds \<lparr>ordinal = 737835, secs = 71403\<rparr> (timezone env) of
        Inl e \<Rightarrow> Inl e | Inr t \<Rightarrow> Inr (p1\<lparr>gas_timestamp := Some t,
                                  gas := Some (Finite (7543529375845581 / 2 ^ 48))\<rparr>))"
  by (simp add: line_defs regex_defs p1_localtime_to_utc_def strptime_195003 float_examples
      split: sum.splits)

subsection \<open>The gas pair through the extraction\<close>

lemma on_timestamp_gas: "on_timestamp env line p1 = Inr p1' \<Longrightarrow> gas_paired p1 \<Longrightarrow> gas_paired p1'"
  by (auto simp: on_timestamp_def gas_paired_def split: option.splits sum.splits)

lemma on_kwatt_gas: "on_kwatt line p1 = Inr p1' \<Longrightarrow> gas_paired p1 \<Longrightarrow> gas_paired p1'"
  by (auto simp: on_kwatt_def gas_paired_def split: option.splits sum.splits)

lemma on_tariff1_gas: "on_tariff1 line p1 = Inr p1' \<Longrightarrow> gas_paired p1 \<Longrightarrow> gas_paired p1'"
  by (auto simp: on_tariff1_def gas_paired_def split: option.splits sum.splits)

lemma on_tariff2_gas: "on_tariff2 line p1 = Inr p1' \<Longrightarrow> gas_paired p1 \<Longrightarrow> gas_paired p1'"
  by (auto simp: on_tariff2_def gas_paired_def split: option.splits sum.splits)

lemma on_voltage_gas: "on_voltage line p1 = Inr p1' \<Longrightarrow> gas_paired p1 \<Longrightarrow> gas_paired p1'"
  by (auto simp: on_voltage_def gas_paired_def split: option.splits sum.splits)

lemma on_gas_gas: "on_gas env line p1 = Inr p1' \<Longrightarrow> gas_paired p1 \<Longrightarrow> gas_paired p1'"
  by (auto simp: on_gas_def gas_paired_def split: option.splits sum.splits)

lemma then_do_Inr: "then_do r f = Inr y \<longleftrightarrow> (\<exists>x. r = Inr x \<and> f x = Inr y)"
  by (cases r) (simp_all add: then_do_def)

lemma p1_line_gas:
  assumes "p1_line env line p1 = Inr p1'" and "gas_paired p1"
  shows "gas_paired p1'"
proof -
  from assms(1) obtain e where e: "on_gas env line e = Inr p1'"
     and 5: "then_do (then_do (then_do (then_do (on_timestamp env line p1)
       (on_kwatt line)) (on_tariff1 line)) (on_tariff2 line)) (on_voltage line) = Inr e"
    unfolding p1_line_def by (subst (asm) then_do_Inr) auto
  from 5 obtain d where d: "on_voltage line d = Inr e"
     and 4: "then_do (then_do (then_do (on_timestamp env line p1)
       (on_kwatt line)) (on_tariff1 line)) (on_tariff2 line) = Inr d"
    by (subst (asm) then_do_Inr) auto
  from 4 obtain c where c: "on_tariff2 line c = Inr d"
     and 3: "then_do (then_do (on_timestamp env line p1) (on_kwatt line)) (on_tariff1 line) = Inr c"
    by (subst (asm) then_do_Inr) auto
  from 3 obtain b where b: "on_tariff1 line b = Inr c"
     and 2: "then_do (on_timestamp env line p1) (on_kwatt line) = Inr b"
    by (subst (asm) then_do_Inr) auto
  from 2 obtain a where a: "on_kwatt line a = Inr b"
     and 1: "on_timestamp env line p1 = Inr a"
    by (subst (asm) then_do_Inr) auto
  have "gas_paired a" using 1 assms(2) by (rule on_timestamp_gas)
  then have "gas_paired b" using a on_kwatt_gas by blast
  then have "gas_paired c" using b on_tariff1_gas by blast
  then have "gas_paired d" using c on_tariff2_gas by blast
  then have "gas_paired e" using d on_voltage_gas by blast
  then show ?thesis using e on_gas_gas by blast
qed

lemma p1_lines_gas:
  "p1_lines env p1 lines = Inr p1' \<Longrightarrow> gas_paired p1 \<Longrightarrow> gas_paired p1'"
proof (induction lines arbitrary: p1)
  case Nil
  then show ?case by simp
next
  case (Cons line lines)
  from Cons.prems(1) obtain q where q: "p1_line env line p1 = Inr q"
    and rest: "p1_lines env q lines = Inr p1'"
    by (auto split: sum.splits)
  from q Cons.prems(2) have "gas_paired q" by (rule p1_line_gas)
  with rest show ?case by (rule Cons.IH)
qed

subsection \<open>Dates, offsets and the range of \<open>strptime\<close>\<close>

lemma instant_add:
  "datetime_add_seconds dt off = Inr u \<Longrightarrow> instant u = instant dt + off"
  by (auto simp: datetime_add_seconds_def instant_def Let_def split: if_splits)

lemma datetime_add_ok:
  assumes "0 \<le> secs dt" "secs dt < 86400" "1 < ordinal dt" "ordinal dt < MAXORDINAL"
    and "\<bar>off\<bar> \<le> 86400"
  shows "\<exists>u. datetime_add_seconds dt off = Inr u"
proof -
  let ?total = "ordinal dt * 86400 + secs dt + off"
  have lo: "86400 * 1 \<le> ?total" using assms by linarith
  have hi: "?total < 86400 * MAXORDINAL + 86400" using assms by linarith
  define q where "q = ?total div 86400"
  define r where "r = ?total mod 86400"
  have eq: "?total = 86400 * q + r" unfolding q_def r_def by simp
  have r: "0 \<le> r" "r < 86400" by (simp_all add: r_def)
  from lo eq r have q1: "1 \<le> q" by linarith
  from hi eq r have q2: "q < MAXORDINAL + 1" by linarith
  from q1 q2
  have "1 \<le> ?total div 86400" "?total div 86400 < MAXORDINAL + 1"
    unfolding q_def by simp_all
  then show ?thesis
    by (simp add: datetime_add_seconds_def Let_def)
qed

lemma add_CET_1: "datetime_add_seconds \<lparr>ordinal = 737835, secs = 71680\<rparr> (timezone CET)
   = Inr \<lparr>ordinal = 737835, secs = 68080\<rparr>"
  by (simp add: datetime_add_seconds_def CET_def MAXORDINAL_def)

lemma add_CET_2: "datetime_add_seconds \<lparr>ordinal = 737835, secs = 71403\<rparr> (timezone CET)
   = Inr \<lparr>ordinal = 737835, secs = 67803\<rparr>"
  by (simp add: datetime_add_seconds_def CET_def MAXORDINAL_def)

lemma spec_body_CET: "p1_data_from_lines CET spec_body = Inr spec_reading"
  by (simp add: p1_data_from_lines_def spec_body_def line1 line2 line3 line4 line5 line6
      add_CET_1 add_CET_2 P1Data_init_def spec_reading_def float_defs)

lemma month_cases:
  assumes "1 \<le> (m::int)" "m \<le> 12"
  shows "m = 1 \<or> m = 2 \<or> m = 3 \<or> m = 4 \<or> m = 5 \<or> m = 6 \<or> m = 7 \<or> m = 8 \<or> m = 9
         \<or> m = 10 \<or> m = 11 \<or> m = 12"
  using assms by presburger

lemma days_before_month_bounds:
  assumes "1 \<le> m" "m \<le> 12"
  shows "0 \<le> days_before_month y m \<and> days_before_month y m \<le> 335"
  using month_cases [OF assms] by (auto simp: days_before_month_def)

lemma days_in_month_le:
  assumes "1 \<le> m" "m \<le> 12"
  shows "days_in_month y m \<le> 31"
  using month_cases [OF assms] by (auto simp: days_in_month_def)

lemma days_before_year_bounds:
  assumes "1969 \<le> y" "y \<le> 2068"
  shows "718320 \<le> days_before_year y \<and> days_before_year y \<le> 758589"
proof -
  define z where "z = y - 1"
  have z: "1968 \<le> z" "z \<le> 2067" using assms by (simp_all add: z_def)
  have a: "z div 100 \<le> z div 4" using z by (intro zdiv_mono2) simp_all
  have b: "0 \<le> z div 400" using z by simp
  have "z = 4 * (z div 4) + z mod 4" "0 \<le> z mod 4" by simp_all
  with z have c: "z div 4 \<le> z" by linarith
  have d: "0 \<le> z div 100" using z by simp
  have "z = 400 * (z div 400) + z mod 400" "0 \<le> z mod 400" by simp_all
  with z have e: "z div 400 \<le> z" by linarith
  have "days_before_year y = z * 365 + z div 4 - z div 100 + z div 400"
    by (simp add: days_before_year_def z_def Let_def)
  with z a b c d e show ?thesis by linarith
qed

lemma datetime_new_range:
  assumes "datetime_new year month day hour minute second = Inr dt"
    and "1969 \<le> year" "year \<le> 2068"
  shows "0 \<le> secs dt \<and> secs dt < 86400 \<and> 1 < ordinal dt \<and> ordinal dt < MAXORDINAL"
proof -
  from assms(1) have m: "1 \<le> month" "month \<le> 12"
    and d: "1 \<le> day" "day \<le> days_in_month year month"
    and h: "0 \<le> hour" "hour \<le> 23" and mi: "0 \<le> minute" "minute \<le> 59"
    and s: "0 \<le> second" "second \<le> 59"
    and dt: "dt = \<lparr>ordinal = ymd2ord year month day,
                     secs = hour * 3600 + minute * 60 + second\<rparr>"
    by (auto simp: datetime_new_def split: if_splits)
  from d days_in_month_le [OF m] have d31: "day \<le> 31" by (meson order_trans)
  have bm: "0 \<le> days_before_month year month" "days_before_month year month \<le> 335"
    using days_before_month_bounds [OF m, of year] by simp_all
  have yb: "718320 \<le> days_before_year year" "days_before_year year \<le> 758589"
    using days_before_year_bounds [OF assms(2,3)] by simp_all
  have "1 < ymd2ord year month day" "ymd2ord year month day < MAXORDINAL"
    unfolding ymd2ord_def MAXORDINAL_def using bm yb d(1) d31 by linarith+
  with h mi s show ?thesis by (simp add: dt)
qed

lemma digit_facts:
  assumes "c \<in> set ''0123456789''"
  shows "digit_val c \<le> 9" and "\<not> is_space c"
  using assms by (auto simp: digit_val_def is_space_def)

lemma dir_y_two_digits:
  assumes "(y, r) \<in> set (dir_y s)"
  shows "0 \<le> py_int y \<and> py_int y \<le> 99"
proof -
  from assms obtain c1 c2 where y: "y = [c1, c2]"
    and c: "c1 \<in> set ''0123456789''" "c2 \<in> set ''0123456789''"
    by (auto simp: dir_y_def cc2_def split: list.splits if_splits)
  from digit_facts [OF c(1)] digit_facts [OF c(2)] show ?thesis
    by (simp add: y py_int_def nat_of_digits_def)
qed

lemma format_regex_match_y:
  assumes "((y, m, d, H, M, S), rest) \<in> set (format_regex_match s)"
  shows "\<exists>r. (y, r) \<in> set (dir_y s)"
  using assms by (auto simp: format_regex_match_def List.bind_def)

lemma strptime_range:
  assumes "strptime ts = Inr local"
  shows "0 \<le> secs local \<and> secs local < 86400 \<and> 1 < ordinal local \<and> ordinal local < MAXORDINAL"
proof -
  from assms obtain y m d H M S rest tl where
    fm: "format_regex_match ts = ((y, m, d, H, M, S), rest) # tl"
    and new: "datetime_new (if py_int y \<le> 68 then py_int y + 2000 else py_int y + 1900)
                (py_int m) (py_int d) (py_int H) (py_int M) (py_int S) = Inr local"
    by (auto simp: strptime_def Let_def split: list.splits if_splits)
  from fm have "((y, m, d, H, M, S), rest) \<in> set (format_regex_match ts)" by simp
  then obtain r where "(y, r) \<in> set (dir_y ts)" using format_regex_match_y by blast
  then have "0 \<le> py_int y \<and> py_int y \<le> 99" by (rule dir_y_two_digits)
  then have "1969 \<le> (if py_int y \<le> 68 then py_int y + 2000 else py_int y + 1900)"
    and "(if py_int y \<le> 68 then py_int y + 2000 else py_int y + 1900) \<le> 2068"
    by auto
  with new show ?thesis by (rule datetime_new_range)
qed

subsection \<open>A whole telegram through the read loop\<close>

lemma run_telegram:
  assumes "regex_p1_header (py_strip h)"
    and "\<forall>l\<in>set body. regex_p1_crc (py_strip l) = None"
    and "length body \<le> P1_MSG_LIMIT"
    and "regex_p1_crc (py_strip tr) = Some crc"
  shows "run env (AwaitHeader, w) (h # body @ [tr]) =
           (case p1_data_from_lines env (map py_strip body) of
              Inl e \<Rightarrow> (Crashed e, w)
            | Inr p1 \<Rightarrow>
                (case add_p1_to_influxdb w p1 of
                   (w', Some e) \<Rightarrow> (Crashed e, w')
                 | (w', None) \<Rightarrow> (AwaitHeader, w')))"
proof -
  have "run env (AwaitHeader, w) (h # body @ [tr]) = run env (Collecting [], w) (body @ [tr])"
    using assms(1) by (simp add: run_Cons step_await)
  also have "\<dots> = run env (run env (Collecting [], w) body) [tr]"
    by (simp only: run_append)
  also have "run env (Collecting [], w) body = (Collecting ([] @ map py_strip body), w)"
    using assms(2,3) by (intro run_collect) simp_all
  also have "run env (Collecting ([] @ map py_strip body), w) [tr] =
      step env (Collecting (map py_strip body), w) tr"
    by (simp add: run_Cons run_Nil)
  finally show ?thesis by (simp add: step_collect_trailer [OF assms(4)])
qed

lemma strip_spec_body: "map py_strip spec_body = spec_body"
  by (simp add: spec_body_def py_strip_def is_space_def)

lemma spec_body_no_crc: "\<forall>l\<in>set spec_body. regex_p1_crc (py_strip l) = None"
  by (simp add: spec_body_def py_strip_def is_space_def regex_defs)

lemma trailers:
  "regex_p1_crc (py_strip ''!AEB6'') = Some ''AEB6''"
  "regex_p1_crc (py_strip ''!0000'') = Some ''0000''"
  by (simp_all add: py_strip_def is_space_def regex_defs)

lemma strptime_feb30: "strptime ''210230195440'' = Inl ValueError"
  by (simp add: strptime_defs)

lemma strptime_195439: "strptime ''210214195439'' = Inr \<lparr>ordinal = 737835, secs = 71679\<rparr>"
  by (simp add: strptime_defs)

lemma line_feb30: "p1_line env ''0-0:1.0.0(210230195440W)'' p1 = Inl ValueError"
  by (simp add: line_defs regex_defs p1_localtime_to_utc_def strptime_feb30)

lemma line_195439:
  "p1_line CET ''0-0:1.0.0(210214195439W)'' p1 =
     Inr (p1\<lparr>timestamp := Some \<lparr>ordinal = 737835, secs = 68079\<rparr>\<rparr>)"
  by (simp add: line_defs regex_defs p1_localtime_to_utc_def strptime_195439
      datetime_add_seconds_def CET_def MAXORDINAL_def)

lemmas router_defs = add_p1_to_influxdb_def db_write_def db_flush_def print_def dt_second_def

lemma spec_telegram_run:
  assumes "regex_p1_crc (py_strip tr) = Some crc"
  shows "run CET (AwaitHeader, w) (spec_header # spec_body @ [tr]) =
           (AwaitHeader,
            w\<lparr>writes := writes w @ [\<lparr>bucket = ''p1_hr'', org = [], points = p1_points spec_reading\<rparr>],
              flushes := Suc (flushes w),
              stdout := stdout w @ [Written_new_measurement spec_reading]\<rparr>)"
proof -
  have len: "length spec_body \<le> P1_MSG_LIMIT"
    by (simp add: spec_body_def P1_MSG_LIMIT_def)
  have ext: "p1_data_from_lines CET spec_body = Inr spec_reading"
    by (rule spec_body_CET)
  show ?thesis
    by (subst run_telegram [OF spec_header_is_header spec_body_no_crc len assms])
      (simp add: strip_spec_body ext router_defs spec_reading_def
        influxdb_highres_bucket_def influxdb_org_def)
qed

lemma stale_telegram_run:
  "run CET (AwaitHeader, w) (spec_header # stale_body @ [''!0000'']) =
     (AwaitHeader,
      w\<lparr>writes := writes w @ [\<lparr>bucket = ''p1_hr'', org = [], points = p1_points stale_reading\<rparr>],
        flushes := Suc (flushes w),
        stdout := stdout w @ [Written_new_measurement stale_reading]\<rparr>)"
proof -
  have len: "length stale_body \<le> P1_MSG_LIMIT"
    by (simp add: stale_body_def P1_MSG_LIMIT_def)
  have nocrc: "\<forall>l\<in>set stale_body. regex_p1_crc (py_strip l) = None"
    by (simp add: stale_body_def py_strip_def is_space_def regex_defs)
  have strip: "map py_strip stale_body = stale_body"
    by (simp add: stale_body_def py_strip_def is_space_def)
  have ext: "p1_data_from_lines CET stale_body = Inr stale_reading"
    by (simp add: p1_data_from_lines_def stale_body_def line_195439 stale_reading_def)
  show ?thesis
    by (subst run_telegram [OF spec_header_is_header nocrc len trailers(2)])
      (simp add: strip ext router_defs stale_reading_def P1Data_init_def
        influxdb_highres_bucket_def influxdb_org_def)
qed

subsection \<open>\<open>float\<close> on the captured texts\<close>

lemma dot_not_digit: "\<not> is_digit CHR ''.''"
  by (simp add: is_digit_def)

lemma py_float_of_decimal:
  assumes "decimal s = Some (t, r)"
  shows "\<exists>x. py_float t = Inr x"
proof -
  from assms obtain u where ip: "takeWhile is_digit s \<noteq> []"
    and fp: "takeWhile is_digit u \<noteq> []"
    and t: "t = takeWhile is_digit s @ CHR ''.'' # takeWhile is_digit u"
    by (auto simp: decimal_def digits1_def split: if_splits Option.bind_splits)
  have dip: "\<forall>c\<in>set (takeWhile is_digit s). is_digit c" by (meson set_takeWhileD)
  have dfp: "\<forall>c\<in>set (takeWhile is_digit u). is_digit c" by (meson set_takeWhileD)
  have tw: "takeWhile is_digit t = takeWhile is_digit s"
    unfolding t using dip dot_not_digit by (simp add: takeWhile_tail)
  have dw: "dropWhile is_digit t = CHR ''.'' # takeWhile is_digit u"
    unfolding t using dip dot_not_digit by (simp add: dropWhile_append3)
  show ?thesis
    using ip fp dfp by (simp add: py_float_def tw dw list_all_iff)
qed

lemma captured_decimals:
  "regex_current_kwatt line = Some k \<Longrightarrow> \<exists>s r. decimal s = Some (k, r)"
  "regex_tariff1_total line = Some k \<Longrightarrow> \<exists>s r. decimal s = Some (k, r)"
  "regex_tariff2_total line = Some k \<Longrightarrow> \<exists>s r. decimal s = Some (k, r)"
  "regex_l1_voltage line = Some k \<Longrightarrow> \<exists>s r. decimal s = Some (k, r)"
  "regex_gas_total line = Some (ts, dst, k) \<Longrightarrow> \<exists>s r. decimal s = Some (k, r)"
  by (auto simp: regex_current_kwatt_def regex_tariff1_total_def regex_tariff2_total_def
      regex_l1_voltage_def regex_gas_total_def at_end_def
      split: Option.bind_splits if_splits) blast+

text \<open>The conversions with \<open>float\<close> never raise: only \<open>strptime\<close> can fail.\<close>

lemma on_kwatt_total: "\<exists>p. on_kwatt line p1 = Inr p"
proof (cases "regex_current_kwatt line")
  case None
  then show ?thesis by (simp add: on_kwatt_def)
next
  case (Some k)
  then obtain x where "py_float k = Inr x"
    using captured_decimals(1) py_float_of_decimal by blast
  with Some show ?thesis by (simp add: on_kwatt_def)
qed

lemma on_tariff1_total: "\<exists>p. on_tariff1 line p1 = Inr p"
proof (cases "regex_tariff1_total line")
  case None
  then show ?thesis by (simp add: on_tariff1_def)
next
  case (Some k)
  then obtain x where "py_float k = Inr x"
    using captured_decimals(2) py_float_of_decimal by blast
  with Some show ?thesis by (simp add: on_tariff1_def)
qed

lemma on_tariff2_total: "\<exists>p. on_tariff2 line p1 = Inr p"
proof (cases "regex_tariff2_total line")
  case None
  then show ?thesis by (simp add: on_tariff2_def)
next
  case (Some k)
  then obtain x where "py_float k = Inr x"
    using captured_decimals(3) py_float_of_decimal by blast
  with Some show ?thesis by (simp add: on_tariff2_def)
qed

lemma on_voltage_total: "\<exists>p. on_voltage line p1 = Inr p"
proof (cases "regex_l1_voltage line")
  case None
  then show ?thesis by (simp add: on_voltage_def)
next
  case (Some k)
  then obtain x where "py_float k = Inr x"
    using captured_decimals(4) py_float_of_decimal by blast
  with Some show ?thesis by (simp add: on_voltage_def)
qed

section \<open>The claims\<close>

text \<open>
  C1. What the code does with the trailer: the four hexadecimal digits are captured and
  compared with nothing. The telegram of the specification is extracted and written to
  the high-resolution bucket with the trailer \<open>!AEB6\<close> and, in the very same way, with
  the trailer \<open>!0000\<close>. The bytes from the header to the exclamation mark are the same
  in both telegrams, so at most one of the two trailers can be their checksum.
\<close>

theorem trailer_value_is_not_checked:
  "run CET (AwaitHeader, world0) (spec_header # spec_body @ [''!AEB6''])
     = run CET (AwaitHeader, world0) (spec_header # spec_body @ [''!0000''])
   \<and> fst (run CET (AwaitHeader, world0) (spec_header # spec_body @ [''!0000''])) = AwaitHeader
   \<and> writes (snd (run CET (AwaitHeader, world0) (spec_header # spec_body @ [''!0000''])))
       = [\<lparr>bucket = ''p1_hr'', org = [], points = p1_points spec_reading\<rparr>]"
  by (simp add: spec_telegram_run [OF trailers(1)] spec_telegram_run [OF trailers(2)] world0_def)

text \<open>
  C2. For a Reading whose timestamp is present, \<open>add_p1_to_influxdb\<close> builds five points
  from it: power, tariff1, tariff2 and voltage in the series electricity, each with the
  value of its field of the Reading and the timestamp of the Reading, and the gas usage
  in the series gas with the gas volume and the gas timestamp. It writes these points to
  the high-resolution bucket in every case, writes the same points to the low-resolution
  bucket exactly when the second of the timestamp is zero, and returns normally after one
  flush and one printed line.
\<close>

theorem router_dual_rate:
  assumes "timestamp p1 = Some t"
  shows "p1_points p1 =
           [\<lparr>measurement = ''electricity'', tag = (''reading'', ''power''),
              field = (''watt'', watt p1), time = Some t\<rparr>,
            \<lparr>measurement = ''electricity'', tag = (''reading'', ''tariff1''),
              field = (''kwh'', tariff1 p1), time = Some t\<rparr>,
            \<lparr>measurement = ''electricity'', tag = (''reading'', ''tariff2''),
              field = (''kwh'', tariff2 p1), time = Some t\<rparr>,
            \<lparr>measurement = ''electricity'', tag = (''reading'', ''voltage''),
              field = (''volt'', voltage p1), time = Some t\<rparr>,
            \<lparr>measurement = ''gas'', tag = (''reading'', ''usage''),
              field = (''m3'', gas p1), time = gas_timestamp p1\<rparr>]
         \<and> add_p1_to_influxdb w p1 =
           (w\<lparr>writes := writes w
                  @ [\<lparr>bucket = influxdb_highres_bucket, org = influxdb_org, points = p1_points p1\<rparr>]
                  @ (if dt_second t = 0
                     then [\<lparr>bucket = influxdb_lowres_bucket, org = influxdb_org, points = p1_points p1\<rparr>]
                     else []),
               flushes := Suc (flushes w),
               stdout := stdout w @ [Written_new_measurement p1]\<rparr>, None)
         \<and> influxdb_highres_bucket = ''p1_hr'' \<and> influxdb_lowres_bucket = ''p1_lr''
         \<and> 0 \<le> dt_second t \<and> dt_second t \<le> 59"
proof -
  have "0 \<le> dt_second t" and "dt_second t < 60"
    by (simp_all add: dt_second_def)
  then have range: "0 \<le> dt_second t \<and> dt_second t \<le> 59" by simp
  have pts: "p1_points p1 =
           [\<lparr>measurement = ''electricity'', tag = (''reading'', ''power''),
              field = (''watt'', watt p1), time = Some t\<rparr>,
            \<lparr>measurement = ''electricity'', tag = (''reading'', ''tariff1''),
              field = (''kwh'', tariff1 p1), time = Some t\<rparr>,
            \<lparr>measurement = ''electricity'', tag = (''reading'', ''tariff2''),
              field = (''kwh'', tariff2 p1), time = Some t\<rparr>,
            \<lparr>measurement = ''electricity'', tag = (''reading'', ''voltage''),
              field = (''volt'', voltage p1), time = Some t\<rparr>,
            \<lparr>measurement = ''gas'', tag = (''reading'', ''usage''),
              field = (''m3'', gas p1), time = gas_timestamp p1\<rparr>]"
    using assms by (simp add: p1_points_def Point_def)
  have run: "add_p1_to_influxdb w p1 =
           (w\<lparr>writes := writes w
                  @ [\<lparr>bucket = influxdb_highres_bucket, org = influxdb_org, points = p1_points p1\<rparr>]
                  @ (if dt_second t = 0
                     then [\<lparr>bucket = influxdb_lowres_bucket, org = influxdb_org, points = p1_points p1\<rparr>]
                     else []),
               flushes := Suc (flushes w),
               stdout := stdout w @ [Written_new_measurement p1]\<rparr>, None)"
    using assms
    by (simp add: add_p1_to_influxdb_def db_write_def db_flush_def print_def)
  have names: "influxdb_highres_bucket = ''p1_hr''" "influxdb_lowres_bucket = ''p1_lr''"
    by (simp_all add: influxdb_highres_bucket_def influxdb_lowres_bucket_def)
  from pts run names range show ?thesis by blast
qed

theorem router_dual_rate_witness:
  "timestamp (spec_reading\<lparr>timestamp := Some \<lparr>ordinal = 737835, secs = 68040\<rparr>\<rparr>)
     = Some \<lparr>ordinal = 737835, secs = 68040\<rparr>
   \<and> writes (fst (add_p1_to_influxdb world0
        (spec_reading\<lparr>timestamp := Some \<lparr>ordinal = 737835, secs = 68040\<rparr>\<rparr>))) =
       [\<lparr>bucket = ''p1_hr'', org = [], points =
           [\<lparr>measurement = ''electricity'', tag = (''reading'', ''power''),
              field = (''watt'', Some (Finite 234)),
              time = Some \<lparr>ordinal = 737835, secs = 68040\<rparr>\<rparr>,
            \<lparr>measurement = ''electricity'', tag = (''reading'', ''tariff1''),
              field = (''kwh'', Some (rn 32.289)),
              time = Some \<lparr>ordinal = 737835, secs = 68040\<rparr>\<rparr>,
            \<lparr>measurement = ''electricity'', tag = (''reading'', ''tariff2''),
              field = (''kwh'', Some (rn 16.064)),
              time = Some \<lparr>ordinal = 737835, secs = 68040\<rparr>\<rparr>,
            \<lparr>measurement = ''electricity'', tag = (''reading'', ''voltage''),
              field = (''volt'', Some (rn 235.2)),
              time = Some \<lparr>ordinal = 737835, secs = 68040\<rparr>\<rparr>,
            \<lparr>measurement = ''gas'', tag = (''reading'', ''usage''),
              field = (''m3'', Some (rn 26.8)),
              time = Some \<lparr>ordinal = 737835, secs = 67803\<rparr>\<rparr>]\<rparr>,
        \<lparr>bucket = ''p1_lr'', org = [], points =
           [\<lparr>measurement = ''electricity'', tag = (''reading'', ''power''),
              field = (''watt'', Some (Finite 234)),
              time = Some \<lparr>ordinal = 737835, secs = 68040\<rparr>\<rparr>,
            \<lparr>measurement = ''electricity'', tag = (''reading'', ''tariff1''),
              field = (''kwh'', Some (rn 32.289)),
              time = Some \<lparr>ordinal = 737835, secs = 68040\<rparr>\<rparr>,
            \<lparr>measurement = ''electricity'', tag = (''reading'', ''tariff2''),
              field = (''kwh'', Some (rn 16.064)),
              time = Some \<lparr>ordinal = 737835, secs = 68040\<rparr>\<rparr>,
            \<lparr>measurement = ''electricity'', tag = (''reading'', ''voltage''),
              field = (''volt'', Some (rn 235.2)),
              time = Some \<lparr>ordinal = 737835, secs = 68040\<rparr>\<rparr>,
            \<lparr>measurement = ''gas'', tag = (''reading'', ''usage''),
              field = (''m3'', Some (rn 26.8)),
              time = Some \<lparr>ordinal = 737835, secs = 67803\<rparr>\<rparr>]\<rparr>]
   \<and> writes (fst (add_p1_to_influxdb world0 spec_reading)) =
       [\<lparr>bucket = ''p1_hr'', org = [], points = p1_points spec_reading\<rparr>]"
proof -
  have a: "timestamp (spec_reading\<lparr>timestamp := Some \<lparr>ordinal = 737835, secs = 68040\<rparr>\<rparr>)
     = Some \<lparr>ordinal = 737835, secs = 68040\<rparr>"
    by simp
  have b: "timestamp spec_reading = Some \<lparr>ordinal = 737835, secs = 68080\<rparr>"
    by (simp add: spec_reading_def)
  from router_dual_rate [OF a, of world0] router_dual_rate [OF b, of world0] a
  show ?thesis
    by (simp add: world0_def dt_second_def influxdb_org_def spec_reading_def)
qed

text \<open>
  C3. What the code does with a Reading whose timestamp is absent: the five points are
  written to the high-resolution bucket first, and only then does the test of
  \<open>p1.timestamp.second\<close> raise. The low-resolution bucket is not written, nothing is
  flushed and nothing is printed.
\<close>

theorem router_without_timestamp:
  assumes "timestamp p1 = None"
  shows "add_p1_to_influxdb w p1 =
           (w\<lparr>writes := writes w
                  @ [\<lparr>bucket = influxdb_highres_bucket, org = influxdb_org, points = p1_points p1\<rparr>]\<rparr>,
            Some AttributeError)"
  using assms by (simp add: add_p1_to_influxdb_def db_write_def)

theorem router_without_timestamp_witness:
  "timestamp P1Data_init = None
   \<and> map bucket (writes (fst (add_p1_to_influxdb world0 P1Data_init))) = [''p1_hr'']
   \<and> snd (add_p1_to_influxdb world0 P1Data_init) = Some AttributeError"
  using router_without_timestamp [of P1Data_init world0]
  by (simp add: P1Data_init_def world0_def influxdb_highres_bucket_def)

text \<open>
  C4. Whenever \<open>strptime\<close> accepts the time string, \<open>p1_localtime_to_utc\<close> returns the
  instant that lies \<open>time.timezone\<close> seconds after the local time for the flag \<open>W\<close> and
  \<open>time.altzone\<close> seconds after it for the flag \<open>S\<close>, whatever date the string holds
  (offsets of at most a day in either direction, as \<open>time\<close> provides them). The string
  \<open>210214195440\<close> is 2021-02-14T19:54:40.
\<close>

theorem localtime_to_utc_by_flag:
  assumes "strptime ts = Inr local"
    and "dst = ''W'' \<or> dst = ''S''"
    and "\<bar>timezone env\<bar> \<le> 86400" and "\<bar>altzone env\<bar> \<le> 86400"
  shows "\<exists>utc. p1_localtime_to_utc env ts dst = Inr utc
           \<and> instant utc = instant local + (if dst = ''W'' then timezone env else altzone env)"
proof -
  let ?off = "if dst = ''W'' then timezone env else altzone env"
  from assms(3,4) have off: "\<bar>?off\<bar> \<le> 86400" by simp
  from strptime_range [OF assms(1)] have
    "0 \<le> secs local" "secs local < 86400" "1 < ordinal local" "ordinal local < MAXORDINAL"
    by simp_all
  from datetime_add_ok [OF this off] obtain utc where
    utc: "datetime_add_seconds local ?off = Inr utc" by blast
  then have "instant utc = instant local + ?off" by (rule instant_add)
  moreover have "p1_localtime_to_utc env ts dst = Inr utc"
    using utc assms(1) by (simp add: p1_localtime_to_utc_def Let_def)
  ultimately show ?thesis by blast
qed

theorem localtime_to_utc_by_flag_witness:
  "strptime ''210214195440'' = Inr \<lparr>ordinal = 737835, secs = 71680\<rparr>
   \<and> datetime_new 2021 2 14 19 54 40 = Inr \<lparr>ordinal = 737835, secs = 71680\<rparr>
   \<and> \<bar>timezone CET\<bar> \<le> 86400 \<and> \<bar>altzone CET\<bar> \<le> 86400
   \<and> (\<exists>utc. p1_localtime_to_utc CET ''210214195440'' ''W'' = Inr utc
         \<and> instant utc = instant \<lparr>ordinal = 737835, secs = 71680\<rparr> - 3600)"
proof -
  have a: "strptime ''210214195440'' = Inr \<lparr>ordinal = 737835, secs = 71680\<rparr>"
    by (rule strptime_195440)
  have b: "''W'' = ''W'' \<or> ''W'' = ''S''" by simp
  have c: "\<bar>timezone CET\<bar> \<le> 86400" "\<bar>altzone CET\<bar> \<le> 86400" by (simp_all add: CET_def)
  have d: "datetime_new 2021 2 14 19 54 40 = Inr \<lparr>ordinal = 737835, secs = 71680\<rparr>"
    by (simp add: strptime_defs)
  from localtime_to_utc_by_flag [OF a b c] a b c d show ?thesis
    by (simp add: CET_def)
qed

text \<open>
  C5. What the code does when one captured value fails to convert: the timestamp line
  with the date 30 February makes \<open>strptime\<close> raise, \<open>p1_data_from_lines\<close> is left by the
  exception and returns no Reading at all, though the power line after it is valid (alone
  it gives watt = 234); in the read loop the exception ends the process.
\<close>

theorem bad_timestamp_aborts_extraction:
  "p1_data_from_lines env [''0-0:1.0.0(210230195440W)'', ''1-0:1.7.0(00.234*kW)'']
     = Inl ValueError
   \<and> p1_data_from_lines env [''1-0:1.7.0(00.234*kW)''] = Inr (P1Data_init\<lparr>watt := Some (Finite 234)\<rparr>)
   \<and> run env (AwaitHeader, w)
        [spec_header, ''0-0:1.0.0(210230195440W)'', ''1-0:1.7.0(00.234*kW)'', ''!0000'']
       = (Crashed ValueError, w)"
proof -
  have a: "p1_data_from_lines env [''0-0:1.0.0(210230195440W)'', ''1-0:1.7.0(00.234*kW)'']
     = Inl ValueError"
    by (simp add: p1_data_from_lines_def line_feb30)
  have b: "p1_data_from_lines env [''1-0:1.7.0(00.234*kW)''] = Inr (P1Data_init\<lparr>watt := Some (Finite 234)\<rparr>)"
    by (simp add: p1_data_from_lines_def line2)
  have nocrc: "\<forall>l\<in>set [''0-0:1.0.0(210230195440W)'', ''1-0:1.7.0(00.234*kW)''].
      regex_p1_crc (py_strip l) = None"
    by (simp add: py_strip_def is_space_def regex_defs)
  have strip: "py_strip ''0-0:1.0.0(210230195440W)'' = ''0-0:1.0.0(210230195440W)''"
    "py_strip ''1-0:1.7.0(00.234*kW)'' = ''1-0:1.7.0(00.234*kW)''"
    by (simp_all add: py_strip_def is_space_def)
  have "run env (AwaitHeader, w)
        (spec_header # [''0-0:1.0.0(210230195440W)'', ''1-0:1.7.0(00.234*kW)''] @ [''!0000''])
       = (Crashed ValueError, w)"
    by (subst run_telegram [OF spec_header_is_header nocrc _ trailers(2)])
      (simp_all add: P1_MSG_LIMIT_def strip a)
  with a b show ?thesis by simp
qed

text \<open>
  C6. A header line followed by \<open>P1_MSG_LIMIT + 1\<close> lines of which none matches the trailer
  pattern: the program prints the overrun message exactly once, writes nothing, drops the
  collected lines and waits for a header again; a header line that comes next starts a
  fresh, empty collection.
\<close>

theorem overrun_after_limit:
  assumes "regex_p1_header (py_strip h)"
    and "length ls = P1_MSG_LIMIT + 1"
    and "\<forall>l\<in>set ls. regex_p1_crc (py_strip l) = None"
  shows "run env (AwaitHeader, w) (h # ls) = (AwaitHeader, print OOOP w)
       \<and> (\<forall>h'. regex_p1_header (py_strip h') \<longrightarrow>
             run env (AwaitHeader, w) (h # ls @ [h']) = (Collecting [], print OOOP w))"
proof -
  from assms(2) have ne: "ls \<noteq> []" by auto
  then have split: "ls = butlast ls @ [last ls]" by simp
  have len: "length (butlast ls) = P1_MSG_LIMIT" using assms(2) by simp
  have bl: "\<forall>l\<in>set (butlast ls). regex_p1_crc (py_strip l) = None"
    using assms(3) by (meson in_set_butlastD)
  have la: "regex_p1_crc (py_strip (last ls)) = None"
    using assms(3) ne by simp
  have "run env (AwaitHeader, w) (h # ls) = run env (Collecting [], w) ls"
    using assms(1) by (simp add: run_Cons step_await)
  also have "\<dots> = run env (run env (Collecting [], w) (butlast ls)) [last ls]"
    by (subst split) (simp only: run_append)
  also have "run env (Collecting [], w) (butlast ls) = (Collecting ([] @ map py_strip (butlast ls)), w)"
    using bl len by (intro run_collect) simp_all
  also have "run env (Collecting ([] @ map py_strip (butlast ls)), w) [last ls] = (AwaitHeader, print OOOP w)"
    using la len by (simp add: run_Cons run_Nil step_collect_body)
  finally have first: "run env (AwaitHeader, w) (h # ls) = (AwaitHeader, print OOOP w)" .
  have "run env (AwaitHeader, w) (h # ls @ [h']) = (Collecting [], print OOOP w)"
    if "regex_p1_header (py_strip h')" for h'
  proof -
    have "run env (AwaitHeader, w) ((h # ls) @ [h']) = run env (AwaitHeader, print OOOP w) [h']"
      by (simp only: run_append first)
    then show ?thesis using that by (simp add: run_Cons run_Nil step_await)
  qed
  with first show ?thesis by blast
qed

theorem overrun_after_limit_witness:
  "regex_p1_header (py_strip spec_header)
   \<and> length (replicate 101 ''x'') = P1_MSG_LIMIT + 1
   \<and> set (replicate 101 ''x'') = {''x''} \<and> regex_p1_crc (py_strip ''x'') = None
   \<and> run CET (AwaitHeader, world0) (spec_header # replicate 101 ''x'')
       = (AwaitHeader, world0\<lparr>stdout := [OOOP]\<rparr>)"
proof -
  have a: "regex_p1_header (py_strip spec_header)" by (rule spec_header_is_header)
  have b: "length (replicate 101 ''x'') = P1_MSG_LIMIT + 1" by (simp add: P1_MSG_LIMIT_def)
  have c: "\<forall>l\<in>set (replicate 101 ''x''). regex_p1_crc (py_strip l) = None"
    by (simp add: py_strip_def is_space_def regex_defs)
  have d: "regex_p1_crc (py_strip ''x'') = None"
    by (simp add: py_strip_def is_space_def regex_defs)
  from overrun_after_limit [OF a b c, of CET world0] a b d show ?thesis
    by (simp add: print_def world0_def)
qed

text \<open>
  C7, as the code has it. A line that matches the header pattern and arrives while lines
  are being collected is handled like any other line that is not a trailer: it is
  stripped and appended to \<open>p1_msg\<close>, which is kept; nothing is printed and no new
  frame is begun. Only when \<open>p1_msg\<close> thereby passes \<open>P1_MSG_LIMIT\<close> is the usual overrun
  message printed and the wait for a header resumed.
\<close>

theorem header_while_collecting:
  assumes "regex_p1_header (py_strip raw)"
  shows "step env (Collecting msg, w) raw =
           (if length msg < P1_MSG_LIMIT then (Collecting (msg @ [py_strip raw]), w)
            else (AwaitHeader, print OOOP w))"
proof -
  from assms have "regex_p1_crc (py_strip raw) = None" by (rule header_not_crc)
  then show ?thesis by (simp add: step_collect_body Suc_le_eq)
qed

theorem header_while_collecting_witness:
  "regex_p1_header (py_strip spec_header)
   \<and> length [''1-0:1.7.0(00.234*kW)''] < P1_MSG_LIMIT
   \<and> step CET (Collecting [''1-0:1.7.0(00.234*kW)''], world0) spec_header
       = (Collecting [''1-0:1.7.0(00.234*kW)'', py_strip spec_header], world0)"
  using header_while_collecting [OF spec_header_is_header, of CET "[''1-0:1.7.0(00.234*kW)'']" world0]
    spec_header_is_header
  by (simp add: P1_MSG_LIMIT_def)

text \<open>
  The claim C7 as it is stated fails: after a header and one body line, a second header
  line neither produces the overrun message nor empties the buffer.
\<close>

theorem header_while_collecting_counterexample:
  "regex_p1_header (py_strip spec_header)
   \<and> step CET (Collecting [''1-0:1.7.0(00.234*kW)''], world0) spec_header
       = (Collecting [''1-0:1.7.0(00.234*kW)'', spec_header], world0)
   \<and> step CET (Collecting [''1-0:1.7.0(00.234*kW)''], world0) spec_header
       \<noteq> (Collecting [], print OOOP world0)"
proof -
  have s: "py_strip spec_header = spec_header"
    by (simp add: spec_header_def py_strip_def is_space_def)
  have "regex_p1_crc (py_strip spec_header) = None"
    using spec_header_is_header by (rule header_not_crc)
  then have "step CET (Collecting [''1-0:1.7.0(00.234*kW)''], world0) spec_header
       = (Collecting [''1-0:1.7.0(00.234*kW)'', spec_header], world0)"
    by (simp add: step_collect_body P1_MSG_LIMIT_def s)
  with spec_header_is_header show ?thesis by simp
qed

text \<open>
  C8, as the code has it. The read loop keeps no earlier timestamp and compares none:
  every complete telegram whose extraction gives a Reading with a timestamp is routed in
  the same way whatever was written or printed before it, to the high-resolution bucket
  always and to the low-resolution bucket at second zero.
\<close>

theorem telegram_routed_whatever_came_before:
  assumes "regex_p1_header (py_strip h)"
    and "\<forall>l\<in>set body. regex_p1_crc (py_strip l) = None"
    and "length body \<le> P1_MSG_LIMIT"
    and "regex_p1_crc (py_strip tr) = Some crc"
    and "p1_data_from_lines env (map py_strip body) = Inr p1"
    and "timestamp p1 = Some t"
  shows "run env (AwaitHeader, w) (h # body @ [tr]) =
           (AwaitHeader,
            w\<lparr>writes := writes w
                 @ [\<lparr>bucket = influxdb_highres_bucket, org = influxdb_org, points = p1_points p1\<rparr>]
                 @ (if dt_second t = 0
                    then [\<lparr>bucket = influxdb_lowres_bucket, org = influxdb_org, points = p1_points p1\<rparr>]
                    else []),
              flushes := Suc (flushes w),
              stdout := stdout w @ [Written_new_measurement p1]\<rparr>)"
  by (subst run_telegram [OF assms(1-4)])
    (simp add: assms(5,6) add_p1_to_influxdb_def db_write_def db_flush_def print_def)

theorem telegram_routed_whatever_came_before_witness:
  "regex_p1_header (py_strip spec_header)
   \<and> stale_body = [''0-0:1.0.0(210214195439W)'']
   \<and> regex_p1_crc (py_strip ''0-0:1.0.0(210214195439W)'') = None
   \<and> length stale_body \<le> P1_MSG_LIMIT
   \<and> regex_p1_crc (py_strip ''!0000'') = Some ''0000''
   \<and> p1_data_from_lines CET (map py_strip stale_body) = Inr stale_reading
   \<and> timestamp stale_reading = Some \<lparr>ordinal = 737835, secs = 68079\<rparr>
   \<and> run CET (AwaitHeader, snd (run CET (AwaitHeader, world0) (spec_header # spec_body @ [''!AEB6''])))
        (spec_header # stale_body @ [''!0000''])
      = (AwaitHeader,
         \<lparr>writes = [\<lparr>bucket = ''p1_hr'', org = [], points = p1_points spec_reading\<rparr>,
                    \<lparr>bucket = ''p1_hr'', org = [], points = p1_points stale_reading\<rparr>],
          flushes = 2,
          stdout = [Written_new_measurement spec_reading, Written_new_measurement stale_reading]\<rparr>)"
proof -
  have a: "\<forall>l\<in>set stale_body. regex_p1_crc (py_strip l) = None"
    by (simp add: stale_body_def py_strip_def is_space_def regex_defs)
  have b: "length stale_body \<le> P1_MSG_LIMIT"
    by (simp add: stale_body_def P1_MSG_LIMIT_def)
  have c: "p1_data_from_lines CET (map py_strip stale_body) = Inr stale_reading"
    by (simp add: p1_data_from_lines_def stale_body_def py_strip_def is_space_def
        line_195439 stale_reading_def)
  have d: "timestamp stale_reading = Some \<lparr>ordinal = 737835, secs = 68079\<rparr>"
    by (simp add: stale_reading_def)
  have e: "regex_p1_crc (py_strip ''0-0:1.0.0(210214195439W)'') = None"
    by (simp add: py_strip_def is_space_def regex_defs)
  from telegram_routed_whatever_came_before [OF spec_header_is_header a b trailers(2) c d,
      of "snd (run CET (AwaitHeader, world0) (spec_header # spec_body @ [''!AEB6'']))"]
    spec_header_is_header b trailers(2) c d e stale_body_def
  show ?thesis
    by (simp add: spec_telegram_run [OF trailers(1)] world0_def dt_second_def
        influxdb_highres_bucket_def influxdb_org_def)
qed

text \<open>
  The claim C8 as it is stated fails: of two telegrams in a row, the second carries a
  timestamp one second before that of the first; both Readings are written to the
  high-resolution bucket and reported as written, and nothing else is printed.
\<close>

theorem timestamp_regression_counterexample:
  "fst (run CET (AwaitHeader, world0) two_telegrams) = AwaitHeader
   \<and> map bucket (writes (snd (run CET (AwaitHeader, world0) two_telegrams)))
       = [''p1_hr'', ''p1_hr'']
   \<and> map (time \<circ> hd \<circ> points) (writes (snd (run CET (AwaitHeader, world0) two_telegrams)))
       = [Some \<lparr>ordinal = 737835, secs = 68080\<rparr>, Some \<lparr>ordinal = 737835, secs = 68079\<rparr>]
   \<and> instant \<lparr>ordinal = 737835, secs = 68079\<rparr> < instant \<lparr>ordinal = 737835, secs = 68080\<rparr>
   \<and> stdout (snd (run CET (AwaitHeader, world0) two_telegrams))
       = [Written_new_measurement spec_reading, Written_new_measurement stale_reading]"
  by (simp add: two_telegrams_def run_append spec_telegram_run [OF trailers(1)]
      stale_telegram_run world0_def p1_points_def Point_def spec_reading_def stale_reading_def
      P1Data_init_def instant_def del: append_Cons)

text \<open>
  C9. The six body lines of the telegram of the specification are extracted to
  watt = 234.0 exactly (the float of 00.234, times 1000, rounded as the float product
  is), tariff1 = 32.289, tariff2 = 16.064, voltage = 235.2 and gas = 26.8, each the
  binary64 number that this decimal literal denotes; the timestamp is
  2021-02-14T19:54:40 and the gas timestamp 2021-02-14T19:50:03, each moved by
  \<open>time.timezone\<close>, the offset of the flag \<open>W\<close> that both lines carry.
\<close>

theorem spec_telegram_extraction:
  assumes "\<bar>timezone env\<bar> \<le> 86400"
  shows "\<exists>t g. p1_data_from_lines env spec_body =
             Inr \<lparr>timestamp = Some t, watt = Some (Finite 234.0), tariff1 = Some (rn 32.289),
                  tariff2 = Some (rn 16.064), voltage = Some (rn 235.2), gas = Some (rn 26.8),
                  gas_timestamp = Some g\<rparr>
         \<and> datetime_new 2021 2 14 19 54 40 = Inr \<lparr>ordinal = 737835, secs = 71680\<rparr>
         \<and> instant t = instant \<lparr>ordinal = 737835, secs = 71680\<rparr> + timezone env
         \<and> datetime_new 2021 2 14 19 50 3 = Inr \<lparr>ordinal = 737835, secs = 71403\<rparr>
         \<and> instant g = instant \<lparr>ordinal = 737835, secs = 71403\<rparr> + timezone env
         \<and> py_float ''00.234'' = Inr (rn 0.234) \<and> fmul (rn 0.234) 1000 = Finite 234.0
         \<and> rn 0.234 = Finite (8430738502437569 / 2 ^ 55)
         \<and> rn 32.289 = Finite (2272136380752593 / 2 ^ 46)
         \<and> rn 16.064 = Finite (2260807012939989 / 2 ^ 47)
         \<and> rn 235.2 = Finite (4137682157646643 / 2 ^ 44)
         \<and> rn 26.8 = Finite (7543529375845581 / 2 ^ 48)"
proof -
  have "\<exists>u. datetime_add_seconds \<lparr>ordinal = 737835, secs = 71680\<rparr> (timezone env) = Inr u"
    using assms by (intro datetime_add_ok) (simp_all add: MAXORDINAL_def)
  then obtain t where
    t: "datetime_add_seconds \<lparr>ordinal = 737835, secs = 71680\<rparr> (timezone env) = Inr t" ..
  have "\<exists>u. datetime_add_seconds \<lparr>ordinal = 737835, secs = 71403\<rparr> (timezone env) = Inr u"
    using assms by (intro datetime_add_ok) (simp_all add: MAXORDINAL_def)
  then obtain g where
    g: "datetime_add_seconds \<lparr>ordinal = 737835, secs = 71403\<rparr> (timezone env) = Inr g" ..
  have "p1_data_from_lines env spec_body =
          Inr \<lparr>timestamp = Some t, watt = Some (Finite 234.0), tariff1 = Some (rn 32.289),
               tariff2 = Some (rn 16.064), voltage = Some (rn 235.2), gas = Some (rn 26.8),
               gas_timestamp = Some g\<rparr>"
    by (simp add: p1_data_from_lines_def spec_body_def line1 line2 line3 line4 line5 line6
        t g P1Data_init_def float_defs)
  moreover have "datetime_new 2021 2 14 19 54 40 = Inr \<lparr>ordinal = 737835, secs = 71680\<rparr>"
    and "datetime_new 2021 2 14 19 50 3 = Inr \<lparr>ordinal = 737835, secs = 71403\<rparr>"
    by (simp_all add: strptime_defs)
  moreover have "py_float ''00.234'' = Inr (rn 0.234)"
    and "fmul (rn 0.234) 1000 = Finite 234.0"
    by (simp_all add: float_defs)
  moreover note instant_add [OF t] instant_add [OF g] literal_values
  ultimately show ?thesis by blast
qed

theorem spec_telegram_extraction_witness:
  "\<bar>timezone CET\<bar> \<le> 86400
   \<and> (\<exists>t g. p1_data_from_lines CET spec_body =
             Inr \<lparr>timestamp = Some t, watt = Some (Finite 234.0), tariff1 = Some (rn 32.289),
                  tariff2 = Some (rn 16.064), voltage = Some (rn 235.2), gas = Some (rn 26.8),
                  gas_timestamp = Some g\<rparr>
         \<and> instant t = instant \<lparr>ordinal = 737835, secs = 71680\<rparr> - 3600
         \<and> instant g = instant \<lparr>ordinal = 737835, secs = 71403\<rparr> - 3600)"
proof -
  have a: "\<bar>timezone CET\<bar> \<le> 86400" by (simp add: CET_def)
  from spec_telegram_extraction [OF a] obtain t g where
    "p1_data_from_lines CET spec_body =
             Inr \<lparr>timestamp = Some t, watt = Some (Finite 234.0), tariff1 = Some (rn 32.289),
                  tariff2 = Some (rn 16.064), voltage = Some (rn 235.2), gas = Some (rn 26.8),
                  gas_timestamp = Some g\<rparr>"
    and "instant t = instant \<lparr>ordinal = 737835, secs = 71680\<rparr> + timezone CET"
    and "instant g = instant \<lparr>ordinal = 737835, secs = 71403\<rparr> + timezone CET"
    by blast
  with a show ?thesis by (auto simp: CET_def)
qed

text \<open>
  C10. In every Reading that \<open>p1_data_from_lines\<close> returns, the gas volume is present if
  and only if the gas timestamp is present: only the gas line sets them, and it sets both.
\<close>

theorem gas_iff_gas_timestamp:
  assumes "p1_data_from_lines env lines = Inr p1"
  shows "gas p1 \<noteq> None \<longleftrightarrow> gas_timestamp p1 \<noteq> None"
proof -
  have "gas_paired P1Data_init" by (simp add: gas_paired_def P1Data_init_def)
  with assms have "gas_paired p1"
    unfolding p1_data_from_lines_def by (rule p1_lines_gas)
  then show ?thesis by (simp add: gas_paired_def)
qed

theorem gas_iff_gas_timestamp_witness:
  "p1_data_from_lines CET spec_body = Inr spec_reading
   \<and> gas spec_reading = Some (rn 26.8)
   \<and> gas_timestamp spec_reading = Some \<lparr>ordinal = 737835, secs = 67803\<rparr>
   \<and> gas spec_reading \<noteq> None \<and> gas_timestamp spec_reading \<noteq> None"
  using gas_iff_gas_timestamp [OF spec_body_CET] spec_body_CET
  by (simp add: spec_reading_def)

end
